theory Spec2Isabelle
  imports Main "HOL-Library.Multiset" "HOL-Library.Sublist"
begin

section \<open>Post analysis: the data model\<close>

text \<open>
  The program (\<^verbatim>\<open>src/app.py\<close>) works on pandas DataFrames. A DataFrame is modelled by
  what the program reads of it: the columns with their dtypes (\<^verbatim>\<open>df.columns\<close>,
  \<^verbatim>\<open>df[name].dtype\<close>) and the rows, each carrying its index label. Column names are
  unique, as \<^verbatim>\<open>read_csv\<close> and \<^verbatim>\<open>DataFrame.from_dict\<close> make them, and index labels are
  natural numbers (\<^verbatim>\<open>read_csv\<close> gives the RangeIndex \<open>0, 1, \<dots>\<close>; a boolean mask keeps
  the labels of the rows it selects).
\<close>

datatype dtype = Int64 | Int32 | Float64 | Bool | Object | Datetime64

text \<open>
  A cell of an \<^verbatim>\<open>object\<close> column as \<^verbatim>\<open>read_csv\<close> fills it: a Python string, or NaN
  for an empty field. One list element of a string stands for one character of the
  Python \<^verbatim>\<open>str\<close>.
\<close>

datatype pyobj = Str string | NaN

text \<open>
  One row of a frame that has the seven required columns. The cells of the \<^verbatim>\<open>int64\<close>
  columns are integers (the program only compares them, it does no arithmetic on them);
  cells of further columns live in the record's extension.
\<close>

record post =
  id_col :: int
  title :: pyobj
  privacy :: pyobj
  likes :: int
  views :: int
  comments :: int
  timestamp :: pyobj

record 'r frame =
  columns :: "(string \<times> dtype) list"
  rows :: "(nat \<times> 'r) list"

datatype error =
    MissingColumnException string
  | UnsupportedColumnTypeException string dtype dtype
  | ParserError string
  | OutOfBoundsDatetime string
  | ValueError
  | KeyError nat

subsection \<open>Constants\<close>

definition C_ID :: string where "C_ID = ''id''"
definition C_TITLE :: string where "C_TITLE = ''title''"
definition C_PRIVACY :: string where "C_PRIVACY = ''privacy''"
definition C_LIKES :: string where "C_LIKES = ''likes''"
definition C_VIEWS :: string where "C_VIEWS = ''views''"
definition C_COMMENTS :: string where "C_COMMENTS = ''comments''"
definition C_TIMESTAMP :: string where "C_TIMESTAMP = ''timestamp''"

text \<open>
  \<^verbatim>\<open>np.int\<close> is Python's \<^verbatim>\<open>int\<close>, which a dtype comparison reads as the platform's
  default integer (\<^verbatim>\<open>int64\<close> on Linux and macOS); \<^verbatim>\<open>np.object\<close> is the dtype of string
  columns.
\<close>

definition np_int :: dtype where "np_int = Int64"
definition np_object :: dtype where "np_object = Object"

definition VALID_COLUMNS :: "(string \<times> dtype) set" where
  "VALID_COLUMNS =
     {(C_ID, np_int), (C_TITLE, np_object), (C_PRIVACY, np_object), (C_LIKES, np_int),
      (C_VIEWS, np_int), (C_COMMENTS, np_int), (C_TIMESTAMP, np_object)}"

definition MIN_NUM_COMMENTS :: int where "MIN_NUM_COMMENTS = 10"
definition MIN_NUM_VIEWS :: int where "MIN_NUM_VIEWS = 9000"
definition MAX_NUM_TITLE_CHARS :: nat where "MAX_NUM_TITLE_CHARS = 40"
definition PRIVACY_TYPE :: string where "PRIVACY_TYPE = ''public''"

section \<open>Schema validation\<close>

text \<open>
  \<^verbatim>\<open>_VALID_COLUMNS\<close> is a \<^verbatim>\<open>frozenset\<close>: the loop of \<^verbatim>\<open>validate_schema\<close> visits its
  seven pairs in the set's iteration order, which Python does not fix (it follows the
  hashes of the pairs, and string hashes change from one process to the next). The
  order is therefore an argument of the model: any list that enumerates the set once.
  \<open>canonical_order\<close> is the order in which the source text lists the pairs.
\<close>

definition canonical_order :: "(string \<times> dtype) list" where
  "canonical_order =
     [(C_ID, np_int), (C_TITLE, np_object), (C_PRIVACY, np_object), (C_LIKES, np_int),
      (C_VIEWS, np_int), (C_COMMENTS, np_int), (C_TIMESTAMP, np_object)]"

definition iteration_order :: "(string \<times> dtype) list \<Rightarrow> bool" where
  "iteration_order order \<longleftrightarrow> distinct order \<and> set order = VALID_COLUMNS"

fun validate_loop :: "(string \<times> dtype) list \<Rightarrow> (string \<times> dtype) list \<Rightarrow> error + unit" where
  "validate_loop cols [] = Inr ()"
| "validate_loop cols ((name, dtype) # rest) =
     (case map_of cols name of
        None \<Rightarrow> Inl (MissingColumnException name)
      | Some actual \<Rightarrow>
          if actual \<noteq> dtype then Inl (UnsupportedColumnTypeException name dtype actual)
          else validate_loop cols rest)"

definition validate_schema :: "(string \<times> dtype) list \<Rightarrow> 'r frame \<Rightarrow> error + unit" where
  "validate_schema order df = validate_loop (columns df) order"

section \<open>Classification\<close>

text \<open>
  \<^verbatim>\<open>Series.str.len()\<close> is NaN on a missing value, and every comparison with NaN is
  false; \<^verbatim>\<open>==\<close> on a missing value is false as well.
\<close>

fun str_len :: "pyobj \<Rightarrow> nat option" where
  "str_len (Str s) = Some (length s)"
| "str_len NaN = None"

fun lt_nan :: "nat option \<Rightarrow> nat \<Rightarrow> bool" where
  "lt_nan (Some n) m = (n < m)"
| "lt_nan None m = False"

text \<open>The boolean Series \<^verbatim>\<open>condition\<close> of \<^verbatim>\<open>analyze_posts\<close>, one entry per row.\<close>

definition condition :: "'x post_scheme frame \<Rightarrow> bool list" where
  "condition posts_df =
     map (\<lambda>(l, r). privacy r = Str PRIVACY_TYPE \<and> MIN_NUM_COMMENTS < comments r \<and>
                    MIN_NUM_VIEWS < views r \<and> lt_nan (str_len (title r)) MAX_NUM_TITLE_CHARS)
         (rows posts_df)"

text \<open>\<^verbatim>\<open>df.loc[mask]\<close>: the rows at the positions where the mask is true, labels kept.\<close>

definition loc_mask :: "'r frame \<Rightarrow> bool list \<Rightarrow> 'r frame" where
  "loc_mask df flags = df\<lparr>rows := map fst (filter snd (zip (rows df) flags))\<rparr>"

section \<open>Daily aggregation\<close>

text \<open>
  The grouping key of a row: a calendar date, or NaT (pandas' missing date).
  \<open>parse s\<close> stands for \<^verbatim>\<open>pd.to_datetime(s).date()\<close> on one string: \<open>Inl e\<close> when the
  parser raises, with \<open>e\<close> the exception it raises (a \<^verbatim>\<open>ParserError\<close> for a string that is
  no date, \<^verbatim>\<open>OutOfBoundsDatetime\<close> for a date outside the range of a Timestamp),
  \<open>Inr NaT\<close> for the strings pandas reads as missing (the empty string among them) and
  \<open>Inr (Day d)\<close> otherwise. The parser belongs to pandas, so it is an argument of the
  model. \<^verbatim>\<open>to_datetime\<close> walks the column in order and raises what the parser raises
  at the first string it rejects; a NaN cell becomes NaT without any error.
\<close>

datatype 'd datekey = Day 'd | NaT

fun to_datetime :: "(string \<Rightarrow> error + 'd datekey) \<Rightarrow> pyobj list \<Rightarrow> error + 'd datekey list" where
  "to_datetime parse [] = Inr []"
| "to_datetime parse (NaN # xs) =
     (case to_datetime parse xs of Inl e \<Rightarrow> Inl e | Inr ks \<Rightarrow> Inr (NaT # ks))"
| "to_datetime parse (Str s # xs) =
     (case parse s of
        Inl e \<Rightarrow> Inl e
      | Inr k \<Rightarrow> (case to_datetime parse xs of Inl e \<Rightarrow> Inl e | Inr ks \<Rightarrow> Inr (k # ks)))"

text \<open>
  \<^verbatim>\<open>groupby\<close> with a Series as key aligns the Series with the index of the frame it
  groups: when the two indexes are equal it takes the values as they are, otherwise it
  reindexes the Series to the frame's index (a label the Series lacks gets a missing
  key; a Series with a repeated label cannot be reindexed and raises).
\<close>

definition reindex :: "(nat \<times> 'd datekey) list \<Rightarrow> nat list \<Rightarrow> 'd datekey list" where
  "reindex series axis = map (\<lambda>i. case map_of series i of None \<Rightarrow> NaT | Some k \<Rightarrow> k) axis"

definition convert_grouper :: "nat list \<Rightarrow> (nat \<times> 'd datekey) list \<Rightarrow> error + 'd datekey list" where
  "convert_grouper axis grouper =
     (if map fst grouper = axis then Inr (map snd grouper)
      else if \<not> distinct (map fst grouper) then Inl ValueError
      else Inr (reindex grouper axis))"

text \<open>The groups: the distinct non-missing keys, sorted (\<^verbatim>\<open>sort=True\<close>, \<^verbatim>\<open>dropna=True\<close>).\<close>

fun day_of :: "'d datekey \<Rightarrow> 'd option" where
  "day_of (Day d) = Some d"
| "day_of NaT = None"

definition group_keys :: "('d::linorder) datekey list \<Rightarrow> 'd list" where
  "group_keys ks = sort (remdups (List.map_filter day_of ks))"

text \<open>
  \<^verbatim>\<open>idxmax\<close>: the index label of the first occurrence of the maximum; it raises on an
  empty Series.
\<close>

fun idxmax_from :: "nat \<Rightarrow> int \<Rightarrow> (nat \<times> int) list \<Rightarrow> nat" where
  "idxmax_from i m [] = i"
| "idxmax_from i m ((j, v) # xs) = (if m < v then idxmax_from j v xs else idxmax_from i m xs)"

fun idxmax :: "(nat \<times> int) list \<Rightarrow> error + nat" where
  "idxmax [] = Inl ValueError"
| "idxmax ((i, m) # xs) = Inr (idxmax_from i m xs)"

fun collect_results :: "(error + 'a) list \<Rightarrow> error + 'a list" where
  "collect_results [] = Inr []"
| "collect_results (Inl e # rs) = Inl e"
| "collect_results (Inr x # rs) =
     (case collect_results rs of Inl e \<Rightarrow> Inl e | Inr xs \<Rightarrow> Inr (x # xs))"

text \<open>
  \<^verbatim>\<open>groupby_timestamp[C_LIKES].idxmax()\<close> on the frame \<^verbatim>\<open>df.reset_index()\<close>, whose index is
  \<open>0, \<dots>, n - 1\<close>: for every group, the position of the first maximal \<^verbatim>\<open>likes\<close> among the
  positions that carry the group's key. \<open>likes_col\<close> is the \<^verbatim>\<open>likes\<close> column by position;
  it is as long as the list of keys, so every read of it is in range.
\<close>

definition group_idxmax :: "'d datekey list \<Rightarrow> int list \<Rightarrow> 'd \<Rightarrow> error + nat" where
  "group_idxmax ks likes_col d =
     idxmax (map (\<lambda>(i, k). (i, likes_col ! i))
               (filter (\<lambda>(i, k). k = Day d) (zip [0..<length ks] ks)))"

text \<open>
  \<^verbatim>\<open>df.loc[labels]\<close>: for every label in turn, the rows of \<open>df\<close> that carry it; KeyError
  when a label is not in the index.
\<close>

fun loc_rows :: "(nat \<times> 'r) list \<Rightarrow> nat list \<Rightarrow> error + (nat \<times> 'r) list" where
  "loc_rows rs [] = Inr []"
| "loc_rows rs (l # ls) =
     (case filter (\<lambda>(l', r). l' = l) rs of
        [] \<Rightarrow> Inl (KeyError l)
      | x # xs \<Rightarrow> (case loc_rows rs ls of Inl e \<Rightarrow> Inl e | Inr out \<Rightarrow> Inr (x # xs @ out)))"

text \<open>
  \<^verbatim>\<open>__collect_daily_top_posts\<close>. The key Series is computed first, from \<open>df\<close> and with
  the labels of \<open>df\<close>; \<^verbatim>\<open>groupby\<close> then aligns it with the index \<open>0, \<dots>, n - 1\<close> of
  \<^verbatim>\<open>df.reset_index()\<close>; \<^verbatim>\<open>idxmax\<close> yields one position per group, in the order of the
  groups; \<^verbatim>\<open>df.loc\<close> finally looks these numbers up among the labels of \<open>df\<close>.
\<close>

definition collect_daily_top_posts ::
  "(string \<Rightarrow> error + ('d::linorder) datekey) \<Rightarrow> 'x post_scheme frame \<Rightarrow>
     error + 'x post_scheme frame" where
  "collect_daily_top_posts parse df =
     (case to_datetime parse (map (\<lambda>(l, r). timestamp r) (rows df)) of
        Inl e \<Rightarrow> Inl e
      | Inr dates \<Rightarrow>
          (case convert_grouper [0..<length (rows df)] (zip (map fst (rows df)) dates) of
             Inl e \<Rightarrow> Inl e
           | Inr ks \<Rightarrow>
               (case collect_results
                       (map (group_idxmax ks (map (\<lambda>(l, r). likes r) (rows df))) (group_keys ks)) of
                  Inl e \<Rightarrow> Inl e
                | Inr idx \<Rightarrow>
                    (case loc_rows (rows df) idx of
                       Inl e \<Rightarrow> Inl e
                     | Inr found \<Rightarrow> Inr (df\<lparr>rows := found\<rparr>)))))"

section \<open>The pipeline\<close>

definition analyze_posts ::
  "(string \<Rightarrow> error + ('d::linorder) datekey) \<Rightarrow> (string \<times> dtype) list \<Rightarrow>
     'x post_scheme frame \<Rightarrow>
     error + ('x post_scheme frame \<times> 'x post_scheme frame \<times> 'x post_scheme frame)" where
  "analyze_posts parse order posts_df =
     (case validate_schema order posts_df of
        Inl e \<Rightarrow> Inl e
      | Inr _ \<Rightarrow>
          (let top_posts_df = loc_mask posts_df (condition posts_df);
               other_posts_df = loc_mask posts_df (map Not (condition posts_df))
           in case collect_daily_top_posts parse top_posts_df of
                Inl e \<Rightarrow> Inl e
              | Inr daily_top_posts_df \<Rightarrow> Inr (top_posts_df, other_posts_df, daily_top_posts_df)))"

section \<open>Row-wise reading of the condition\<close>

text \<open>
  The conjunction that \<open>condition\<close> evaluates column by column, read on one row; the
  lemma \<open>condition_eq\<close> below shows that the two agree.
\<close>

definition meets_criteria :: "'x post_scheme \<Rightarrow> bool" where
  "meets_criteria r \<longleftrightarrow>
     privacy r = Str ''public'' \<and> 10 < comments r \<and> 9000 < views r \<and>
     lt_nan (str_len (title r)) 40"

section \<open>Example frames\<close>

text \<open>
  A parser for the examples: it knows three timestamps on two days, reads the empty
  string as missing, finds one date out of bounds and takes everything else for no date.
\<close>

definition example_parse :: "string \<Rightarrow> error + int datekey" where
  "example_parse s =
     (if s = ''2015-10-16 08:00:00'' then Inr (Day 20151016)
      else if s = ''2015-10-16 21:30:00'' then Inr (Day 20151016)
      else if s = ''2015-10-17 09:15:00'' then Inr (Day 20151017)
      else if s = [] then Inr NaT
      else if s = ''1500-01-01 00:00:00'' then Inl (OutOfBoundsDatetime s)
      else Inl (ParserError s))"

definition mk_post :: "int \<Rightarrow> string \<Rightarrow> string \<Rightarrow> int \<Rightarrow> int \<Rightarrow> int \<Rightarrow> string \<Rightarrow> post" where
  "mk_post i t p l v c ts =
     \<lparr>id_col = i, title = Str t, privacy = Str p, likes = l, views = v, comments = c,
      timestamp = Str ts\<rparr>"

definition post_a :: post where
  "post_a = mk_post 100 ''first'' ''public'' 5 9001 11 ''2015-10-16 08:00:00''"

definition post_b :: post where
  "post_b = mk_post 101 ''second'' ''private'' 7 9001 11 ''2015-10-16 08:00:00''"

definition post_c :: post where
  "post_c = mk_post 102 ''third'' ''public'' 10 9001 11 ''2015-10-16 21:30:00''"

definition post_d :: post where
  "post_d = mk_post 103 ''fourth'' ''public'' 3 9500 12 ''2015-10-17 09:15:00''"

text \<open>Three posts of one day as \<^verbatim>\<open>read_csv\<close> loads them; the second one is private.\<close>

definition gap_posts :: "post frame" where
  "gap_posts = \<lparr>columns = canonical_order, rows = [(0, post_a), (1, post_b), (2, post_c)]\<rparr>"

text \<open>Two posts: a private one, then a top post.\<close>

definition late_posts :: "post frame" where
  "late_posts = \<lparr>columns = canonical_order, rows = [(0, post_b), (1, post_c)]\<rparr>"

text \<open>
  Two frames that fail validation: in the first the \<^verbatim>\<open>id\<close> column holds strings and
  the \<^verbatim>\<open>title\<close> column is absent; the second lacks both \<^verbatim>\<open>id\<close> and \<^verbatim>\<open>timestamp\<close>.
\<close>

definition no_title_posts :: "post frame" where
  "no_title_posts =
     \<lparr>columns = [(C_ID, Object), (C_PRIVACY, Object), (C_LIKES, Int64), (C_VIEWS, Int64),
                 (C_COMMENTS, Int64), (C_TIMESTAMP, Object)],
      rows = []\<rparr>"

definition no_id_no_timestamp_posts :: "post frame" where
  "no_id_no_timestamp_posts =
     \<lparr>columns = [(C_TITLE, Object), (C_PRIVACY, Object), (C_LIKES, Int64), (C_VIEWS, Int64),
                 (C_COMMENTS, Int64)],
      rows = []\<rparr>"

text \<open>
  Posts at the thresholds: exactly 10 comments, and a title of exactly 40 characters.
\<close>

definition post_ten_comments :: post where
  "post_ten_comments = mk_post 104 ''fifth'' ''public'' 8 9001 10 ''2015-10-17 09:15:00''"

definition post_forty_chars :: post where
  "post_forty_chars =
     mk_post 105 (replicate 40 (CHR ''x'')) ''public'' 8 9001 11 ''2015-10-17 09:15:00''"

definition boundary_posts :: "post frame" where
  "boundary_posts =
     \<lparr>columns = canonical_order,
      rows = [(0, post_a), (1, post_ten_comments), (2, post_forty_chars)]\<rparr>"

text \<open>A top post whose timestamp the parser rejects, and one with a negative like count.\<close>

definition post_bad_time :: post where
  "post_bad_time = mk_post 106 ''sixth'' ''public'' 9 9001 11 ''the day before''"

definition bad_time_posts :: "post frame" where
  "bad_time_posts = \<lparr>columns = canonical_order, rows = [(0, post_a), (1, post_bad_time)]\<rparr>"

text \<open>
  A top post dated before the first Timestamp, and three top posts of which the second
  has no timestamp and the third an empty one.
\<close>

definition post_old_time :: post where
  "post_old_time = mk_post 109 ''ninth'' ''public'' 9 9001 11 ''1500-01-01 00:00:00''"

definition old_time_posts :: "post frame" where
  "old_time_posts = \<lparr>columns = canonical_order, rows = [(0, post_a), (1, post_old_time)]\<rparr>"

definition post_no_time :: post where
  "post_no_time = (mk_post 110 ''tenth'' ''public'' 20 9001 11 [])\<lparr>timestamp := NaN\<rparr>"

definition post_empty_time :: post where
  "post_empty_time = mk_post 111 ''eleventh'' ''public'' 30 9001 11 []"

definition missing_time_posts :: "post frame" where
  "missing_time_posts =
     \<lparr>columns = canonical_order,
      rows = [(0, post_a), (1, post_no_time), (2, post_empty_time)]\<rparr>"

definition post_negative_likes :: post where
  "post_negative_likes = mk_post 107 ''seventh'' ''public'' (- 5) 9001 11 ''2015-10-17 09:15:00''"

text \<open>Rows with an eighth column, \<^verbatim>\<open>author\<close>.\<close>

record post_with_author = post +
  author :: pyobj

definition signed_a :: post_with_author where
  "signed_a = post.extend post_a \<lparr>author = Str ''ann''\<rparr>"

definition signed_b :: post_with_author where
  "signed_b = post.extend post_b \<lparr>author = NaN\<rparr>"

definition signed_posts :: "post_with_author frame" where
  "signed_posts =
     \<lparr>columns = (''author'', Object) # canonical_order, rows = [(0, signed_a), (1, signed_b)]\<rparr>"

definition empty_posts :: "post frame" where
  "empty_posts = \<lparr>columns = canonical_order, rows = []\<rparr>"

text \<open>
  Four top posts and nothing else: here the labels of the top table are its positions.
  The last post shares its day and its like count with \<open>post_c\<close>.
\<close>

definition post_c_again :: post where
  "post_c_again = mk_post 108 ''eighth'' ''public'' 10 9001 11 ''2015-10-16 21:30:00''"

definition aligned_posts :: "post frame" where
  "aligned_posts =
     \<lparr>columns = canonical_order,
      rows = [(0, post_a), (1, post_c), (2, post_d), (3, post_c_again)]\<rparr>"

section \<open>Properties of the building blocks\<close>

lemma lt_nan_str_len: "lt_nan (str_len x) m \<longleftrightarrow> (\<exists>t. x = Str t \<and> length t < m)"
  by (cases x) auto

lemma condition_eq: "condition df = map (\<lambda>x. meets_criteria (snd x)) (rows df)"
  by (simp add: condition_def meets_criteria_def PRIVACY_TYPE_def
      MIN_NUM_COMMENTS_def MIN_NUM_VIEWS_def MAX_NUM_TITLE_CHARS_def case_prod_beta)

lemma mask_filter: "map fst (filter snd (zip xs (map P xs))) = filter P xs"
  by (induction xs) auto

lemma mask_filter_not:
  "map fst (filter snd (zip xs (map Not (map P xs)))) = filter (\<lambda>x. \<not> P x) xs"
  by (induction xs) auto

lemma rows_top:
  "rows (loc_mask df (condition df)) = filter (\<lambda>x. meets_criteria (snd x)) (rows df)"
  unfolding loc_mask_def condition_eq mask_filter by simp

lemma rows_other:
  "rows (loc_mask df (map Not (condition df))) = filter (\<lambda>x. \<not> meets_criteria (snd x)) (rows df)"
  unfolding loc_mask_def condition_eq mask_filter_not by simp

lemma columns_loc_mask: "columns (loc_mask df flags) = columns df"
  by (simp add: loc_mask_def)

lemma validate_loop_ok_iff:
  "validate_loop cols order = Inr () \<longleftrightarrow> (\<forall>(n, t) \<in> set order. map_of cols n = Some t)"
  by (induction order) (auto split: option.splits if_splits)

lemma validate_loop_find:
  "validate_loop cols order =
     (case find (\<lambda>(n, t). map_of cols n \<noteq> Some t) order of
        None \<Rightarrow> Inr ()
      | Some (n, t) \<Rightarrow>
          (case map_of cols n of
             None \<Rightarrow> Inl (MissingColumnException n)
           | Some a \<Rightarrow> Inl (UnsupportedColumnTypeException n t a)))"
  by (induction order) (auto split: option.splits)

lemma to_datetime_length: "to_datetime parse xs = Inr ks \<Longrightarrow> length ks = length xs"
  by (induction parse xs arbitrary: ks rule: to_datetime.induct) (auto split: sum.splits)

lemma to_datetime_ok:
  "(\<forall>s. Str s \<in> set xs \<longrightarrow> (\<exists>k. parse s = Inr k)) \<Longrightarrow> \<exists>ks. to_datetime parse xs = Inr ks"
  by (induction parse xs rule: to_datetime.induct) (auto split: sum.splits)

lemma to_datetime_fail:
  "Str s \<in> set xs \<Longrightarrow> parse s = Inl e \<Longrightarrow>
     \<exists>s' e'. Str s' \<in> set xs \<and> parse s' = Inl e' \<and> to_datetime parse xs = Inl e'"
  by (induction parse xs rule: to_datetime.induct) (auto split: sum.splits)

lemma to_datetime_error:
  "to_datetime parse xs = Inl e \<Longrightarrow> \<exists>s. Str s \<in> set xs \<and> parse s = Inl e"
  by (induction parse xs rule: to_datetime.induct) (auto split: sum.splits)

lemma idxmax_from_mem: "idxmax_from i m xs \<in> insert i (fst ` set xs)"
  by (induction xs arbitrary: i m) force+

lemma idxmax_mem: "xs \<noteq> [] \<Longrightarrow> \<exists>j. idxmax xs = Inr j \<and> j \<in> fst ` set xs"
proof (cases xs)
  case Nil
  assume "xs \<noteq> []" with Nil show ?thesis by simp
next
  case (Cons x rest)
  obtain i m where x: "x = (i, m)" by (cases x)
  show ?thesis using idxmax_from_mem [of i m rest] by (auto simp: Cons x)
qed

lemma group_idxmax_ok:
  assumes "Day d \<in> set ks"
  shows "\<exists>j. group_idxmax ks lc d = Inr j \<and> j < length ks \<and> ks ! j = Day d"
proof -
  let ?sel = "filter (\<lambda>(i, k). k = Day d) (zip [0..<length ks] ks)"
  let ?grp = "map (\<lambda>(i, k). (i, lc ! i)) ?sel"
  from assms obtain i where i: "i < length ks" "ks ! i = Day d"
    by (auto simp: in_set_conv_nth)
  then have "(i, Day d) \<in> set (zip [0..<length ks] ks)"
    by (auto simp: in_set_zip intro!: exI [of _ i])
  then have "?sel \<noteq> []"
    by (auto simp: filter_empty_conv)
  then have "?grp \<noteq> []" by simp
  from idxmax_mem [OF this] obtain j where j: "idxmax ?grp = Inr j" "j \<in> fst ` set ?grp"
    by blast
  from j(2) have "j < length ks \<and> ks ! j = Day d"
    by (auto simp: set_zip)
  with j(1) show ?thesis by (auto simp: group_idxmax_def)
qed

lemma collect_results_ok:
  "(\<forall>r \<in> set rs. \<exists>x. r = Inr x \<and> P x) \<Longrightarrow> \<exists>xs. collect_results rs = Inr xs \<and> (\<forall>x \<in> set xs. P x)"
  by (induction rs rule: collect_results.induct) auto

lemma loc_rows_subset: "loc_rows rs ls = Inr out \<Longrightarrow> set out \<subseteq> set rs"
proof (induction ls arbitrary: out)
  case Nil
  then show ?case by simp
next
  case (Cons l ls)
  let ?f = "filter (\<lambda>(l', r). l' = l) rs"
  from Cons.prems obtain rest where rest: "loc_rows rs ls = Inr rest" "out = ?f @ rest"
    by (auto split: list.splits sum.splits)
  from Cons.IH [OF rest(1)] rest(2) show ?case by auto
qed

lemma loc_rows_ok: "set ls \<subseteq> fst ` set rs \<Longrightarrow> \<exists>out. loc_rows rs ls = Inr out"
proof (induction ls)
  case Nil
  then show ?case by simp
next
  case (Cons l ls)
  then obtain out where out: "loc_rows rs ls = Inr out" by auto
  from Cons.prems obtain r where "(l, r) \<in> set rs" by auto
  then have "filter (\<lambda>(l', r). l' = l) rs \<noteq> []"
    by (auto simp: filter_empty_conv)
  with out show ?case by (auto split: list.splits)
qed

lemma convert_grouper_ok:
  assumes "distinct (map fst g)"
  shows "\<exists>ks. convert_grouper [0..<n] g = Inr ks \<and>
           (\<forall>j d. j < length ks \<and> ks ! j = Day d \<longrightarrow> j \<in> fst ` set g)"
proof (cases "map fst g = [0..<n]")
  case True
  have "j \<in> fst ` set g" if "j < length (map snd g)" for j
  proof -
    from that have "j < n" using True by (metis length_map length_upt minus_nat.diff_0)
    then have "j \<in> set (map fst g)" using True by simp
    then show ?thesis by simp
  qed
  with True show ?thesis by (auto simp: convert_grouper_def)
next
  case False
  have "j \<in> fst ` set g" if "j < n" "reindex g [0..<n] ! j = Day d" for j d
  proof -
    from that have "map_of g j \<noteq> None"
      by (auto simp: reindex_def split: option.splits)
    then show ?thesis by (metis domIff dom_map_of_conv_image_fst)
  qed
  with False assms show ?thesis by (auto simp: convert_grouper_def reindex_def)
qed

lemma collect_daily_ok:
  assumes parse: "\<forall>(l, r) \<in> set (rows df). \<forall>s. timestamp r = Str s \<longrightarrow> (\<exists>k. parse s = Inr k)"
      and dist: "distinct (map fst (rows df))"
  shows "\<exists>daily. collect_daily_top_posts parse df = Inr daily \<and> columns daily = columns df \<and>
           set (rows daily) \<subseteq> set (rows df)"
proof -
  let ?n = "length (rows df)"
  from parse
  have "\<forall>s. Str s \<in> set (map (\<lambda>(l, r). timestamp r) (rows df)) \<longrightarrow> (\<exists>k. parse s = Inr k)"
    by force
  from to_datetime_ok [OF this] obtain dates
    where dates: "to_datetime parse (map (\<lambda>(l, r). timestamp r) (rows df)) = Inr dates" by blast
  from to_datetime_length [OF dates] have len: "length dates = ?n" by simp
  let ?g = "zip (map fst (rows df)) dates"
  from len have fst_g: "map fst ?g = map fst (rows df)" by simp
  with dist have "distinct (map fst ?g)" by simp
  from convert_grouper_ok [OF this, of ?n] obtain ks
    where ks: "convert_grouper [0..<?n] ?g = Inr ks"
      and lab: "\<forall>j d. j < length ks \<and> ks ! j = Day d \<longrightarrow> j \<in> fst ` set ?g" by blast
  let ?lc = "map (\<lambda>(l, r). likes r) (rows df)"
  have "\<forall>r \<in> set (map (group_idxmax ks ?lc) (group_keys ks)).
          \<exists>x. r = Inr x \<and> x \<in> fst ` set (rows df)"
  proof
    fix r assume "r \<in> set (map (group_idxmax ks ?lc) (group_keys ks))"
    then obtain d where d: "d \<in> set (group_keys ks)" "r = group_idxmax ks ?lc d" by auto
    from d(1) have "Day d \<in> set ks"
      by (auto simp: group_keys_def List.map_filter_def elim: day_of.elims)
    from group_idxmax_ok [OF this, of ?lc] obtain j
      where j: "group_idxmax ks ?lc d = Inr j" "j < length ks" "ks ! j = Day d" by blast
    with lab have "j \<in> fst ` set ?g" by blast
    then have "j \<in> set (map fst ?g)" by simp
    then have "j \<in> fst ` set (rows df)" unfolding fst_g by simp
    with j(1) d(2) show "\<exists>x. r = Inr x \<and> x \<in> fst ` set (rows df)" by simp
  qed
  from collect_results_ok [OF this] obtain idx
    where idx: "collect_results (map (group_idxmax ks ?lc) (group_keys ks)) = Inr idx"
      and mem: "\<forall>x \<in> set idx. x \<in> fst ` set (rows df)" by blast
  from mem have "set idx \<subseteq> fst ` set (rows df)" by blast
  from loc_rows_ok [OF this] obtain found where found: "loc_rows (rows df) idx = Inr found" by blast
  from loc_rows_subset [OF found] have "set found \<subseteq> set (rows df)" .
  with dates ks idx found show ?thesis
    by (simp add: collect_daily_top_posts_def)
qed

lemma analyze_posts_Inr:
  assumes "analyze_posts parse order df = Inr (top_df, other_df, daily_df)"
  shows "validate_schema order df = Inr ()"
    and "top_df = loc_mask df (condition df)"
    and "other_df = loc_mask df (map Not (condition df))"
    and "collect_daily_top_posts parse (loc_mask df (condition df)) = Inr daily_df"
  using assms by (auto simp: analyze_posts_def Let_def split: sum.splits)

lemma distinct_labels_top:
  "distinct (map fst (rows df)) \<Longrightarrow> distinct (map fst (rows (loc_mask df (condition df))))"
  by (simp add: rows_top distinct_map_filter)

lemma collect_daily_fail:
  assumes "(l, r) \<in> set (rows df)" "timestamp r = Str s" "parse s = Inl e"
  shows "\<exists>s' e'. parse s' = Inl e' \<and> (\<exists>l' r'. (l', r') \<in> set (rows df) \<and> timestamp r' = Str s') \<and>
           collect_daily_top_posts parse df = Inl e'"
proof -
  from assms(1,2) have "Str s \<in> set (map (\<lambda>(l, r). timestamp r) (rows df))"
    by force
  from to_datetime_fail [where parse = parse and s = s, OF this assms(3)] obtain s' e'
    where s': "Str s' \<in> set (map (\<lambda>(l, r). timestamp r) (rows df))" "parse s' = Inl e'"
      "to_datetime parse (map (\<lambda>(l, r). timestamp r) (rows df)) = Inl e'"
    by blast
  from s'(1) have "\<exists>l' r'. (l', r') \<in> set (rows df) \<and> timestamp r' = Str s'"
    by force
  with s'(2,3) show ?thesis
    by (auto simp: collect_daily_top_posts_def)
qed

lemma validate_schema_accepts:
  assumes "iteration_order order"
      and "\<forall>(n, t) \<in> VALID_COLUMNS. map_of (columns df) n = Some t"
  shows "validate_schema order df = Inr ()"
  using assms by (simp add: validate_schema_def validate_loop_ok_iff iteration_order_def)

lemma collect_daily_empty:
  "rows df = [] \<Longrightarrow> collect_daily_top_posts parse df = Inr df"
  by (simp add: collect_daily_top_posts_def convert_grouper_def group_keys_def
      List.map_filter_def)

text \<open>
  On a frame whose top rows are its first rows the aggregation does what is intended: one
  row per day, the first of those with the most likes, in the order of the days.
\<close>

lemma daily_top_on_aligned_frame:
  "analyze_posts example_parse canonical_order aligned_posts =
     Inr (aligned_posts, aligned_posts\<lparr>rows := []\<rparr>,
          aligned_posts\<lparr>rows := [(1, post_c), (2, post_d)]\<rparr>)"
  by code_simp

section \<open>The claims\<close>

subsection \<open>C1: the daily top posts\<close>

text \<open>
  C1 asks that the daily-top table holds, for every calendar date of the top table, the
  row of that date with the most likes (the first one on a tie), and that it is a subset
  of the top table. The code groups \<^verbatim>\<open>df.reset_index()\<close>, whose index is \<open>0, \<dots>, n - 1\<close>,
  by a Series that still carries the labels of \<^verbatim>\<open>df\<close>, and then reads the positions that
  \<^verbatim>\<open>idxmax\<close> returns as labels of \<^verbatim>\<open>df\<close>. As soon as a row before the last top row is not
  a top row, labels and positions differ. In \<open>gap_posts\<close> the top rows are the posts
  \<open>post_a\<close> (5 likes) and \<open>post_c\<close> (10 likes) of the same day: the daily-top table holds
  \<open>post_a\<close>. In \<open>late_posts\<close> the top table has one row and the daily-top table has none.
\<close>

theorem daily_top_misses_rows_after_a_gap:
  "analyze_posts example_parse canonical_order gap_posts =
     Inr (gap_posts\<lparr>rows := [(0, post_a), (2, post_c)]\<rparr>,
          gap_posts\<lparr>rows := [(1, post_b)]\<rparr>,
          gap_posts\<lparr>rows := [(0, post_a)]\<rparr>)
   \<and> example_parse ''2015-10-16 08:00:00'' = example_parse ''2015-10-16 21:30:00''
   \<and> likes post_a = 5 \<and> likes post_c = 10
   \<and> analyze_posts example_parse canonical_order late_posts =
     Inr (late_posts\<lparr>rows := [(1, post_c)]\<rparr>,
          late_posts\<lparr>rows := [(0, post_b)]\<rparr>,
          late_posts\<lparr>rows := []\<rparr>)"
  by code_simp

subsection \<open>C2: the four criteria\<close>

text \<open>
  C2: when \<^verbatim>\<open>analyze_posts\<close> returns, every row of the top table is public, has more than
  10 comments, more than 9000 views and a title of fewer than 40 characters, and every
  row of the other table fails at least one of the four; a row with exactly 10 comments
  or a title of exactly 40 characters is in the other table and not in the top table.
\<close>

theorem top_rows_meet_all_four_criteria:
  assumes "analyze_posts parse order posts_df = Inr (top_df, other_df, daily_df)"
  shows "(\<forall>(l, r) \<in> set (rows top_df).
            privacy r = Str ''public'' \<and> 10 < comments r \<and> 9000 < views r \<and>
            (\<exists>t. title r = Str t \<and> length t < 40))
       \<and> (\<forall>(l, r) \<in> set (rows other_df).
            \<not> (privacy r = Str ''public'' \<and> 10 < comments r \<and> 9000 < views r \<and>
               (\<exists>t. title r = Str t \<and> length t < 40)))
       \<and> (\<forall>(l, r) \<in> set (rows posts_df).
            comments r = 10 \<or> (\<exists>t. title r = Str t \<and> length t = 40) \<longrightarrow>
            (l, r) \<in> set (rows other_df) \<and> (l, r) \<notin> set (rows top_df))"
proof -
  from analyze_posts_Inr(2,3) [OF assms]
  have top: "rows top_df = filter (\<lambda>x. meets_criteria (snd x)) (rows posts_df)"
    and other: "rows other_df = filter (\<lambda>x. \<not> meets_criteria (snd x)) (rows posts_df)"
    by (simp_all add: rows_top rows_other)
  have a: "\<forall>(l, r) \<in> set (rows top_df).
            privacy r = Str ''public'' \<and> 10 < comments r \<and> 9000 < views r \<and>
            (\<exists>t. title r = Str t \<and> length t < 40)"
    unfolding top by (auto simp: meets_criteria_def lt_nan_str_len)
  have b: "\<forall>(l, r) \<in> set (rows other_df).
            \<not> (privacy r = Str ''public'' \<and> 10 < comments r \<and> 9000 < views r \<and>
               (\<exists>t. title r = Str t \<and> length t < 40))"
    unfolding other by (auto simp: meets_criteria_def lt_nan_str_len)
  have c: "\<forall>(l, r) \<in> set (rows posts_df).
            comments r = 10 \<or> (\<exists>t. title r = Str t \<and> length t = 40) \<longrightarrow>
            (l, r) \<in> set (rows other_df) \<and> (l, r) \<notin> set (rows top_df)"
    unfolding top other by (auto simp: meets_criteria_def lt_nan_str_len)
  from a b c show ?thesis by blast
qed

theorem top_rows_meet_all_four_criteria_witness:
  "analyze_posts example_parse canonical_order boundary_posts =
     Inr (boundary_posts\<lparr>rows := [(0, post_a)]\<rparr>,
          boundary_posts\<lparr>rows := [(1, post_ten_comments), (2, post_forty_chars)]\<rparr>,
          boundary_posts\<lparr>rows := [(0, post_a)]\<rparr>)
   \<and> comments post_ten_comments = 10
   \<and> title post_forty_chars = Str (replicate 40 (CHR ''x''))
   \<and> (1, post_ten_comments) \<notin> set (rows (boundary_posts\<lparr>rows := [(0, post_a)]\<rparr>))
   \<and> 9000 < views post_a"
proof -
  let ?top = "boundary_posts\<lparr>rows := [(0, post_a)]\<rparr>"
  let ?other = "boundary_posts\<lparr>rows := [(1, post_ten_comments), (2, post_forty_chars)]\<rparr>"
  have run: "analyze_posts example_parse canonical_order boundary_posts = Inr (?top, ?other, ?top)"
    by code_simp
  note facts = top_rows_meet_all_four_criteria [OF run]
  have ten: "comments post_ten_comments = 10"
    by (simp add: post_ten_comments_def mk_post_def)
  have forty: "title post_forty_chars = Str (replicate 40 (CHR ''x''))"
    by (simp add: post_forty_chars_def mk_post_def)
  have "(1, post_ten_comments) \<in> set (rows boundary_posts)"
    by (simp add: boundary_posts_def)
  with facts ten have out: "(1, post_ten_comments) \<notin> set (rows ?top)"
    by blast
  have "(0, post_a) \<in> set (rows ?top)"
    by simp
  with facts have "9000 < views post_a"
    by blast
  with run ten forty out show ?thesis
    by blast
qed

subsection \<open>C3: the two partitions\<close>

text \<open>
  C3: when \<^verbatim>\<open>analyze_posts\<close> returns, no row is in both partitions, the rows of the two
  partitions together are the rows of the input, each as often as the input has it, the
  ids of the two partitions together are the ids of the input, the row counts add up, and
  when the ids of the input are unique no id occurs in both partitions.
\<close>

theorem partitions_disjoint_and_exhaustive:
  assumes "analyze_posts parse order posts_df = Inr (top_df, other_df, daily_df)"
  shows "set (rows top_df) \<inter> set (rows other_df) = {}
       \<and> mset (rows top_df) + mset (rows other_df) = mset (rows posts_df)
       \<and> (\<lambda>(l, r). id_col r) ` set (rows top_df) \<union> (\<lambda>(l, r). id_col r) ` set (rows other_df)
           = (\<lambda>(l, r). id_col r) ` set (rows posts_df)
       \<and> length (rows top_df) + length (rows other_df) = length (rows posts_df)
       \<and> (distinct (map (\<lambda>(l, r). id_col r) (rows posts_df)) \<longrightarrow>
            (\<lambda>(l, r). id_col r) ` set (rows top_df) \<inter> (\<lambda>(l, r). id_col r) ` set (rows other_df) = {})"
proof -
  let ?P = "\<lambda>x. meets_criteria (snd x)"
  let ?id = "\<lambda>(l, r). id_col r"
  from analyze_posts_Inr(2,3) [OF assms]
  have top: "rows top_df = filter ?P (rows posts_df)"
    and other: "rows other_df = filter (\<lambda>x. \<not> ?P x) (rows posts_df)"
    by (simp_all add: rows_top rows_other)
  have disj: "set (rows top_df) \<inter> set (rows other_df) = {}"
    unfolding top other by auto
  have count: "mset (rows top_df) + mset (rows other_df) = mset (rows posts_df)"
    unfolding top other by simp
  have cover: "set (rows top_df) \<union> set (rows other_df) = set (rows posts_df)"
    unfolding top other by auto
  have ids: "?id ` set (rows top_df) \<union> ?id ` set (rows other_df) = ?id ` set (rows posts_df)"
    unfolding cover [symmetric] by blast
  have len: "length (rows top_df) + length (rows other_df) = length (rows posts_df)"
    unfolding top other by (rule sum_length_filter_compl)
  have uniq: "?id ` set (rows top_df) \<inter> ?id ` set (rows other_df) = {}"
    if "distinct (map ?id (rows posts_df))"
  proof -
    from that have inj: "inj_on ?id (set (rows posts_df))"
      by (simp add: distinct_map)
    have "?id ` (set (rows top_df) \<inter> set (rows other_df)) =
          ?id ` set (rows top_df) \<inter> ?id ` set (rows other_df)"
      by (rule inj_on_image_Int [OF inj]) (simp_all add: cover [symmetric])
    with disj show ?thesis by simp
  qed
  from disj count ids len uniq show ?thesis by blast
qed

theorem partitions_disjoint_and_exhaustive_witness:
  "analyze_posts example_parse canonical_order gap_posts =
     Inr (gap_posts\<lparr>rows := [(0, post_a), (2, post_c)]\<rparr>,
          gap_posts\<lparr>rows := [(1, post_b)]\<rparr>,
          gap_posts\<lparr>rows := [(0, post_a)]\<rparr>)
   \<and> distinct (map (\<lambda>(l, r). id_col r) (rows gap_posts))
   \<and> {id_col post_a, id_col post_c} \<inter> {id_col post_b} = {}
   \<and> length (rows gap_posts) = 3"
proof -
  let ?top = "gap_posts\<lparr>rows := [(0, post_a), (2, post_c)]\<rparr>"
  let ?other = "gap_posts\<lparr>rows := [(1, post_b)]\<rparr>"
  let ?daily = "gap_posts\<lparr>rows := [(0, post_a)]\<rparr>"
  have run: "analyze_posts example_parse canonical_order gap_posts = Inr (?top, ?other, ?daily)"
    by code_simp
  note facts = partitions_disjoint_and_exhaustive [OF run]
  have uniq: "distinct (map (\<lambda>(l, r). id_col r) (rows gap_posts))"
    by (simp add: gap_posts_def post_a_def post_b_def post_c_def mk_post_def)
  from facts uniq
  have "(\<lambda>(l, r). id_col r) ` set (rows ?top) \<inter> (\<lambda>(l, r). id_col r) ` set (rows ?other) = {}"
    by blast
  then have ids: "{id_col post_a, id_col post_c} \<inter> {id_col post_b} = {}"
    by simp
  from facts have "length (rows ?top) + length (rows ?other) = length (rows gap_posts)"
    by blast
  then have len: "length (rows gap_posts) = 3"
    by simp
  from run uniq ids len show ?thesis by blast
qed

subsection \<open>C4: which error validation reports\<close>

text \<open>
  C4 as stated fails: with a required column absent, validation does not always report
  MissingColumnError for the first absent column in the canonical order. Even when the
  loop runs in the canonical order, a mistyped \<^verbatim>\<open>id\<close> column is reported although
  \<^verbatim>\<open>title\<close> is absent; and in another iteration order of the set (here the reverse
  one) the absent column that is named is \<^verbatim>\<open>timestamp\<close>, not \<^verbatim>\<open>id\<close>.
\<close>

theorem validate_schema_not_first_missing_counterexample:
  "validate_schema canonical_order no_title_posts =
     Inl (UnsupportedColumnTypeException ''id'' Int64 Object)
   \<and> iteration_order (rev canonical_order)
   \<and> validate_schema (rev canonical_order) no_id_no_timestamp_posts =
     Inl (MissingColumnException ''timestamp'')"
  by code_simp

text \<open>
  C4, amended: validation walks the required columns in the iteration order of the
  schema set and fails at the first one that is absent or has another dtype than the
  declared one, with MissingColumnError naming it when it is absent and with
  UnsupportedTypeError naming the column, the expected and the actual dtype when it is
  present. It accepts exactly the frames that have every required column with its
  declared dtype, and for a given iteration order the outcome depends on the columns of
  the frame only.
\<close>

theorem validate_schema_first_failure_in_iteration_order:
  "validate_schema order df =
     (case find (\<lambda>(n, t). map_of (columns df) n \<noteq> Some t) order of
        None \<Rightarrow> Inr ()
      | Some (n, t) \<Rightarrow>
          (case map_of (columns df) n of
             None \<Rightarrow> Inl (MissingColumnException n)
           | Some a \<Rightarrow> Inl (UnsupportedColumnTypeException n t a)))
   \<and> (iteration_order order \<longrightarrow>
        (validate_schema order df = Inr ()) =
        (\<forall>(n, t) \<in> VALID_COLUMNS. map_of (columns df) n = Some t))
   \<and> (columns df' = columns df \<longrightarrow> validate_schema order df' = validate_schema order df)"
  by (simp add: validate_schema_def validate_loop_find [symmetric] validate_loop_ok_iff
      iteration_order_def)

theorem validate_schema_first_failure_witness:
  "iteration_order canonical_order
   \<and> validate_schema canonical_order no_id_no_timestamp_posts = Inl (MissingColumnException ''id'')
   \<and> validate_schema canonical_order no_id_no_timestamp_posts \<noteq> Inr ()"
proof -
  have ord: "iteration_order canonical_order"
    by code_simp
  have res: "validate_schema canonical_order no_id_no_timestamp_posts =
               Inl (MissingColumnException ''id'')"
    by code_simp
  from validate_schema_first_failure_in_iteration_order
         [of canonical_order no_id_no_timestamp_posts no_id_no_timestamp_posts] ord
  have "(validate_schema canonical_order no_id_no_timestamp_posts = Inr ()) =
        (\<forall>(n, t) \<in> VALID_COLUMNS. map_of (columns no_id_no_timestamp_posts) n = Some t)"
    by blast
  with ord res show ?thesis by simp
qed

subsection \<open>C5: sequencing and propagation\<close>

text \<open>
  C5: \<^verbatim>\<open>analyze_posts\<close> validates first, and a validation error is its result; after a
  successful validation an error of the daily aggregation of the top table is its result;
  otherwise it returns the top table, the other table and the aggregator's table. The
  result is an error or a complete triple, never a part of one. A triple is returned
  whenever validation accepts, the index labels are distinct and the parser accepts the
  timestamp of every top row.
\<close>

theorem analyze_posts_sequences_and_propagates:
  "(validate_schema order df = Inl e \<longrightarrow> analyze_posts parse order df = Inl e)
   \<and> (validate_schema order df = Inr () \<and>
      collect_daily_top_posts parse (loc_mask df (condition df)) = Inl e \<longrightarrow>
        analyze_posts parse order df = Inl e)
   \<and> (validate_schema order df = Inr () \<and>
      collect_daily_top_posts parse (loc_mask df (condition df)) = Inr daily_df \<longrightarrow>
        analyze_posts parse order df =
          Inr (loc_mask df (condition df), loc_mask df (map Not (condition df)), daily_df))
   \<and> (validate_schema order df = Inr () \<and> distinct (map fst (rows df)) \<and>
      (\<forall>(l, r) \<in> set (rows (loc_mask df (condition df))).
         \<forall>s. timestamp r = Str s \<longrightarrow> (\<exists>k. parse s = Inr k)) \<longrightarrow>
        (\<exists>daily_df. analyze_posts parse order df =
          Inr (loc_mask df (condition df), loc_mask df (map Not (condition df)), daily_df)))"
proof -
  have a: "analyze_posts parse order df = Inl e" if "validate_schema order df = Inl e"
    using that by (simp add: analyze_posts_def)
  have b: "analyze_posts parse order df = Inl e"
    if "validate_schema order df = Inr ()"
      and "collect_daily_top_posts parse (loc_mask df (condition df)) = Inl e"
    using that by (simp add: analyze_posts_def)
  have c: "analyze_posts parse order df =
             Inr (loc_mask df (condition df), loc_mask df (map Not (condition df)), d)"
    if "validate_schema order df = Inr ()"
      and "collect_daily_top_posts parse (loc_mask df (condition df)) = Inr d" for d
    using that by (simp add: analyze_posts_def)
  have d: "\<exists>d. analyze_posts parse order df =
             Inr (loc_mask df (condition df), loc_mask df (map Not (condition df)), d)"
    if ok: "validate_schema order df = Inr ()" and dist: "distinct (map fst (rows df))"
      and ts: "\<forall>(l, r) \<in> set (rows (loc_mask df (condition df))).
                 \<forall>s. timestamp r = Str s \<longrightarrow> (\<exists>k. parse s = Inr k)"
  proof -
    from collect_daily_ok [OF ts distinct_labels_top [OF dist]] obtain dl
      where "collect_daily_top_posts parse (loc_mask df (condition df)) = Inr dl" by blast
    with c [OF ok] show ?thesis by blast
  qed
  from a b c d show ?thesis by blast
qed

theorem analyze_posts_sequences_and_propagates_witness:
  "validate_schema canonical_order no_title_posts =
     Inl (UnsupportedColumnTypeException ''id'' Int64 Object)
   \<and> analyze_posts example_parse canonical_order no_title_posts =
     Inl (UnsupportedColumnTypeException ''id'' Int64 Object)
   \<and> validate_schema canonical_order bad_time_posts = Inr ()
   \<and> collect_daily_top_posts example_parse (loc_mask bad_time_posts (condition bad_time_posts)) =
     Inl (ParserError ''the day before'')
   \<and> analyze_posts example_parse canonical_order bad_time_posts =
     Inl (ParserError ''the day before'')
   \<and> validate_schema canonical_order gap_posts = Inr ()
   \<and> distinct (map fst (rows gap_posts))
   \<and> collect_daily_top_posts example_parse (loc_mask gap_posts (condition gap_posts)) =
     Inr (gap_posts\<lparr>rows := [(0, post_a)]\<rparr>)
   \<and> analyze_posts example_parse canonical_order gap_posts =
     Inr (loc_mask gap_posts (condition gap_posts),
          loc_mask gap_posts (map Not (condition gap_posts)),
          gap_posts\<lparr>rows := [(0, post_a)]\<rparr>)"
proof -
  have v1: "validate_schema canonical_order no_title_posts =
              Inl (UnsupportedColumnTypeException ''id'' Int64 Object)"
    by code_simp
  have v2: "validate_schema canonical_order bad_time_posts = Inr ()"
    by code_simp
  have c2: "collect_daily_top_posts example_parse
              (loc_mask bad_time_posts (condition bad_time_posts)) =
              Inl (ParserError ''the day before'')"
    by code_simp
  have v3: "validate_schema canonical_order gap_posts = Inr ()"
    by code_simp
  have c3: "collect_daily_top_posts example_parse (loc_mask gap_posts (condition gap_posts)) =
              Inr (gap_posts\<lparr>rows := [(0, post_a)]\<rparr>)"
    by code_simp
  have d3: "distinct (map fst (rows gap_posts))"
    by (simp add: gap_posts_def)
  have t3: "\<forall>(l, r) \<in> set (rows (loc_mask gap_posts (condition gap_posts))).
              \<forall>s. timestamp r = Str s \<longrightarrow> (\<exists>k. example_parse s = Inr k)"
    by (simp add: rows_top gap_posts_def meets_criteria_def post_a_def post_b_def post_c_def
        mk_post_def example_parse_def)
  from analyze_posts_sequences_and_propagates
         [of canonical_order no_title_posts _ example_parse] v1
  have r1: "analyze_posts example_parse canonical_order no_title_posts =
              Inl (UnsupportedColumnTypeException ''id'' Int64 Object)"
    by blast
  from analyze_posts_sequences_and_propagates
         [of canonical_order bad_time_posts _ example_parse] v2 c2
  have r2: "analyze_posts example_parse canonical_order bad_time_posts =
              Inl (ParserError ''the day before'')"
    by blast
  from analyze_posts_sequences_and_propagates
         [of canonical_order gap_posts _ example_parse] v3 d3 t3
  have "\<exists>d. analyze_posts example_parse canonical_order gap_posts =
              Inr (loc_mask gap_posts (condition gap_posts),
                   loc_mask gap_posts (map Not (condition gap_posts)), d)"
    by blast
  from analyze_posts_sequences_and_propagates
         [of canonical_order gap_posts _ example_parse "gap_posts\<lparr>rows := [(0, post_a)]\<rparr>"] v3 c3
  have r3: "analyze_posts example_parse canonical_order gap_posts =
              Inr (loc_mask gap_posts (condition gap_posts),
                   loc_mask gap_posts (map Not (condition gap_posts)),
                   gap_posts\<lparr>rows := [(0, post_a)]\<rparr>)"
    by blast
  from v1 r1 v2 c2 r2 v3 d3 c3 r3 show ?thesis by blast
qed

subsection \<open>C6: a timestamp that cannot be parsed\<close>

text \<open>
  C6 as stated fails: a timestamp that is no date does not always stop the run. In
  \<open>missing_time_posts\<close> all three rows are top posts; the second has no timestamp (a NaN
  cell) and the third an empty one. \<^verbatim>\<open>to_datetime\<close> turns both into NaT without an error,
  \<^verbatim>\<open>groupby\<close> leaves rows with a missing key out of every group, and \<^verbatim>\<open>analyze_posts\<close>
  returns: the two rows are in the top table and silently absent from the daily-top
  table, although each has more likes than the row that is there.
\<close>

theorem missing_timestamp_is_skipped_counterexample:
  "timestamp post_no_time = NaN
   \<and> timestamp post_empty_time = Str []
   \<and> example_parse [] = Inr NaT
   \<and> validate_schema canonical_order missing_time_posts = Inr ()
   \<and> analyze_posts example_parse canonical_order missing_time_posts =
       Inr (missing_time_posts, missing_time_posts\<lparr>rows := []\<rparr>,
            missing_time_posts\<lparr>rows := [(0, post_a)]\<rparr>)
   \<and> rows missing_time_posts = [(0, post_a), (1, post_no_time), (2, post_empty_time)]"
  by code_simp

text \<open>
  C6, amended: when some row of the top table has a timestamp string on which the parser
  raises, the daily aggregation fails with the error that the parser raises on such a
  timestamp of the top table, whatever its class, and \<^verbatim>\<open>analyze_posts\<close> on any validated
  frame with this top table fails with the same error. A missing timestamp is no such
  failure: when every timestamp of the top table is a NaN cell or a string that the
  parser accepts (the strings it reads as NaT included) and the index labels are
  distinct, the aggregation returns a table.
\<close>

theorem rejected_timestamp_halts_the_run:
  "((l, r) \<in> set (rows top_df) \<and> timestamp r = Str s \<and> parse s = Inl e \<longrightarrow>
      (\<exists>s' e'. parse s' = Inl e'
         \<and> (\<exists>l' r'. (l', r') \<in> set (rows top_df) \<and> timestamp r' = Str s')
         \<and> collect_daily_top_posts parse top_df = Inl e'
         \<and> (\<forall>order df. validate_schema order df = Inr () \<and> loc_mask df (condition df) = top_df
              \<longrightarrow> analyze_posts parse order df = Inl e')))
   \<and> (distinct (map fst (rows top_df)) \<and>
      (\<forall>(l, r) \<in> set (rows top_df).
         timestamp r = NaN \<or> (\<exists>s k. timestamp r = Str s \<and> parse s = Inr k)) \<longrightarrow>
      (\<exists>daily_df. collect_daily_top_posts parse top_df = Inr daily_df))"
proof -
  have fails: "\<exists>s' e'. parse s' = Inl e'
         \<and> (\<exists>l' r'. (l', r') \<in> set (rows top_df) \<and> timestamp r' = Str s')
         \<and> collect_daily_top_posts parse top_df = Inl e'
         \<and> (\<forall>order df. validate_schema order df = Inr () \<and> loc_mask df (condition df) = top_df
              \<longrightarrow> analyze_posts parse order df = Inl e')"
    if bad: "(l, r) \<in> set (rows top_df)" "timestamp r = Str s" "parse s = Inl e"
  proof -
    from collect_daily_fail [where parse = parse and s = s, OF bad] obtain s' e'
      where s': "parse s' = Inl e'"
        "\<exists>l' r'. (l', r') \<in> set (rows top_df) \<and> timestamp r' = Str s'"
        "collect_daily_top_posts parse top_df = Inl e'"
      by blast
    have "analyze_posts parse order df = Inl e'"
      if "validate_schema order df = Inr ()" "loc_mask df (condition df) = top_df" for order df
      using that s'(3) by (simp add: analyze_posts_def)
    with s' show ?thesis by blast
  qed
  have returns: "\<exists>daily_df. collect_daily_top_posts parse top_df = Inr daily_df"
    if dist: "distinct (map fst (rows top_df))"
      and ok: "\<forall>(l, r) \<in> set (rows top_df).
                 timestamp r = NaN \<or> (\<exists>s k. timestamp r = Str s \<and> parse s = Inr k)"
  proof -
    from ok have "\<forall>(l, r) \<in> set (rows top_df). \<forall>s. timestamp r = Str s \<longrightarrow> (\<exists>k. parse s = Inr k)"
      by fastforce
    from collect_daily_ok [OF this dist] show ?thesis by blast
  qed
  from fails returns show ?thesis by blast
qed

theorem rejected_timestamp_halts_the_run_witness:
  "(1, post_bad_time) \<in> set (rows (loc_mask bad_time_posts (condition bad_time_posts)))
   \<and> timestamp post_bad_time = Str ''the day before''
   \<and> example_parse ''the day before'' = Inl (ParserError ''the day before'')
   \<and> validate_schema canonical_order bad_time_posts = Inr ()
   \<and> analyze_posts example_parse canonical_order bad_time_posts =
       Inl (ParserError ''the day before'')
   \<and> (1, post_old_time) \<in> set (rows (loc_mask old_time_posts (condition old_time_posts)))
   \<and> timestamp post_old_time = Str ''1500-01-01 00:00:00''
   \<and> example_parse ''1500-01-01 00:00:00'' = Inl (OutOfBoundsDatetime ''1500-01-01 00:00:00'')
   \<and> validate_schema canonical_order old_time_posts = Inr ()
   \<and> analyze_posts example_parse canonical_order old_time_posts =
       Inl (OutOfBoundsDatetime ''1500-01-01 00:00:00'')
   \<and> distinct (map fst (rows missing_time_posts))
   \<and> collect_daily_top_posts example_parse missing_time_posts =
       Inr (missing_time_posts\<lparr>rows := [(0, post_a)]\<rparr>)"
proof -
  let ?top = "loc_mask bad_time_posts (condition bad_time_posts)"
  let ?old = "loc_mask old_time_posts (condition old_time_posts)"
  have mem: "(1, post_bad_time) \<in> set (rows ?top)"
    by code_simp
  have ts: "timestamp post_bad_time = Str ''the day before''"
    by (simp add: post_bad_time_def mk_post_def)
  have bad: "example_parse ''the day before'' = Inl (ParserError ''the day before'')"
    by (simp add: example_parse_def)
  have ok: "validate_schema canonical_order bad_time_posts = Inr ()"
    by code_simp
  from rejected_timestamp_halts_the_run
         [where parse = example_parse and s = "''the day before''" and top_df = ?top
            and l = 1 and r = post_bad_time and e = "ParserError ''the day before''"]
       mem ts bad
  obtain e' where e': "collect_daily_top_posts example_parse ?top = Inl e'"
      and all: "\<forall>order df. validate_schema order df = Inr () \<and> loc_mask df (condition df) = ?top
                  \<longrightarrow> analyze_posts example_parse order df = Inl e'"
    by blast
  have "collect_daily_top_posts example_parse ?top = Inl (ParserError ''the day before'')"
    by code_simp
  with e' have "e' = ParserError ''the day before''" by simp
  with all ok have run: "analyze_posts example_parse canonical_order bad_time_posts =
                      Inl (ParserError ''the day before'')"
    by blast
  have mem2: "(1, post_old_time) \<in> set (rows ?old)"
    by code_simp
  have ts2: "timestamp post_old_time = Str ''1500-01-01 00:00:00''"
    by (simp add: post_old_time_def mk_post_def)
  have bad2: "example_parse ''1500-01-01 00:00:00'' = Inl (OutOfBoundsDatetime ''1500-01-01 00:00:00'')"
    by (simp add: example_parse_def)
  have ok2: "validate_schema canonical_order old_time_posts = Inr ()"
    by code_simp
  from rejected_timestamp_halts_the_run
         [where parse = example_parse and s = "''1500-01-01 00:00:00''" and top_df = ?old
            and l = 1 and r = post_old_time and e = "OutOfBoundsDatetime ''1500-01-01 00:00:00''"]
       mem2 ts2 bad2
  obtain e2 where e2: "collect_daily_top_posts example_parse ?old = Inl e2"
      and all2: "\<forall>order df. validate_schema order df = Inr () \<and> loc_mask df (condition df) = ?old
                  \<longrightarrow> analyze_posts example_parse order df = Inl e2"
    by blast
  have "collect_daily_top_posts example_parse ?old =
          Inl (OutOfBoundsDatetime ''1500-01-01 00:00:00'')"
    by code_simp
  with e2 have "e2 = OutOfBoundsDatetime ''1500-01-01 00:00:00''" by simp
  with all2 ok2 have run2: "analyze_posts example_parse canonical_order old_time_posts =
                      Inl (OutOfBoundsDatetime ''1500-01-01 00:00:00'')"
    by blast
  have dist: "distinct (map fst (rows missing_time_posts))"
    by (simp add: missing_time_posts_def)
  have miss: "\<forall>(l, r) \<in> set (rows missing_time_posts).
                timestamp r = NaN \<or> (\<exists>s k. timestamp r = Str s \<and> example_parse s = Inr k)"
    by (simp add: missing_time_posts_def post_a_def post_no_time_def post_empty_time_def
        mk_post_def example_parse_def)
  from rejected_timestamp_halts_the_run
         [where parse = example_parse and top_df = missing_time_posts] dist miss
  have "\<exists>d. collect_daily_top_posts example_parse missing_time_posts = Inr d"
    by blast
  have ret: "collect_daily_top_posts example_parse missing_time_posts =
               Inr (missing_time_posts\<lparr>rows := [(0, post_a)]\<rparr>)"
    by code_simp
  from mem ts bad ok run mem2 ts2 bad2 ok2 run2 dist ret show ?thesis by blast
qed

subsection \<open>C7: the order of the rows\<close>

text \<open>
  C7: when \<^verbatim>\<open>analyze_posts\<close> returns, the rows of the top table and the rows of the other
  table each appear in the order in which the input has them.
\<close>

theorem partitions_keep_input_order:
  assumes "analyze_posts parse order posts_df = Inr (top_df, other_df, daily_df)"
  shows "subseq (rows top_df) (rows posts_df) \<and> subseq (rows other_df) (rows posts_df)"
proof -
  from analyze_posts_Inr(2,3) [OF assms]
  have "rows top_df = filter (\<lambda>x. meets_criteria (snd x)) (rows posts_df)"
    and "rows other_df = filter (\<lambda>x. \<not> meets_criteria (snd x)) (rows posts_df)"
    by (simp_all add: rows_top rows_other)
  then show ?thesis by simp
qed

theorem partitions_keep_input_order_witness:
  "analyze_posts example_parse canonical_order gap_posts =
     Inr (gap_posts\<lparr>rows := [(0, post_a), (2, post_c)]\<rparr>,
          gap_posts\<lparr>rows := [(1, post_b)]\<rparr>,
          gap_posts\<lparr>rows := [(0, post_a)]\<rparr>)
   \<and> subseq [(0, post_a), (2, post_c)] (rows gap_posts)
   \<and> subseq [(1 :: nat, post_b)] (rows gap_posts)"
proof -
  have run: "analyze_posts example_parse canonical_order gap_posts =
     Inr (gap_posts\<lparr>rows := [(0, post_a), (2, post_c)]\<rparr>,
          gap_posts\<lparr>rows := [(1, post_b)]\<rparr>,
          gap_posts\<lparr>rows := [(0, post_a)]\<rparr>)"
    by code_simp
  from partitions_keep_input_order [OF run] run show ?thesis by simp
qed

subsection \<open>C8: additional columns\<close>

text \<open>
  C8: a frame that has the seven required columns with their declared dtypes passes
  validation whatever further columns it has, and the top and the other table have the
  columns of the input and consist of rows of the input, the cells of the further columns
  included.
\<close>

theorem extra_columns_pass_validation_and_are_kept:
  assumes "iteration_order order"
      and "\<forall>(n, t) \<in> VALID_COLUMNS. map_of (columns posts_df) n = Some t"
  shows "validate_schema order posts_df = Inr ()
       \<and> (\<forall>top_df other_df daily_df.
            analyze_posts parse order posts_df = Inr (top_df, other_df, daily_df) \<longrightarrow>
              columns top_df = columns posts_df \<and> columns other_df = columns posts_df \<and>
              set (rows top_df) \<subseteq> set (rows posts_df) \<and>
              set (rows other_df) \<subseteq> set (rows posts_df) \<and>
              set (rows top_df) \<union> set (rows other_df) = set (rows posts_df))"
proof -
  have "columns top_df = columns posts_df \<and> columns other_df = columns posts_df \<and>
        set (rows top_df) \<subseteq> set (rows posts_df) \<and> set (rows other_df) \<subseteq> set (rows posts_df) \<and>
        set (rows top_df) \<union> set (rows other_df) = set (rows posts_df)"
    if run: "analyze_posts parse order posts_df = Inr (top_df, other_df, daily_df)"
    for top_df other_df daily_df
  proof -
    note parts = analyze_posts_Inr(2,3) [OF run]
    from parts have cols: "columns top_df = columns posts_df" "columns other_df = columns posts_df"
      by (simp_all add: columns_loc_mask)
    from parts
    have "rows top_df = filter (\<lambda>x. meets_criteria (snd x)) (rows posts_df)"
      and "rows other_df = filter (\<lambda>x. \<not> meets_criteria (snd x)) (rows posts_df)"
      by (simp_all add: rows_top rows_other)
    then have "set (rows top_df) \<subseteq> set (rows posts_df)"
      and "set (rows other_df) \<subseteq> set (rows posts_df)"
      and "set (rows top_df) \<union> set (rows other_df) = set (rows posts_df)"
      by auto
    with cols show ?thesis by blast
  qed
  with validate_schema_accepts [OF assms] show ?thesis by blast
qed

theorem extra_columns_pass_validation_and_are_kept_witness:
  "iteration_order canonical_order
   \<and> map_of (columns signed_posts) ''author'' = Some Object
   \<and> validate_schema canonical_order signed_posts = Inr ()
   \<and> analyze_posts example_parse canonical_order signed_posts =
       Inr (signed_posts\<lparr>rows := [(0, signed_a)]\<rparr>,
            signed_posts\<lparr>rows := [(1, signed_b)]\<rparr>,
            signed_posts\<lparr>rows := [(0, signed_a)]\<rparr>)
   \<and> author signed_a = Str ''ann'' \<and> author signed_b = NaN
   \<and> columns (signed_posts\<lparr>rows := [(0, signed_a)]\<rparr>) = (''author'', Object) # canonical_order"
proof -
  have ord: "iteration_order canonical_order"
    by code_simp
  have cols: "\<forall>(n, t) \<in> VALID_COLUMNS. map_of (columns signed_posts) n = Some t"
    by (simp add: VALID_COLUMNS_def signed_posts_def canonical_order_def C_ID_def C_TITLE_def
        C_PRIVACY_def C_LIKES_def C_VIEWS_def C_COMMENTS_def C_TIMESTAMP_def np_int_def
        np_object_def)
  have extra: "map_of (columns signed_posts) ''author'' = Some Object"
    by (simp add: signed_posts_def)
  have run: "analyze_posts example_parse canonical_order signed_posts =
       Inr (signed_posts\<lparr>rows := [(0, signed_a)]\<rparr>,
            signed_posts\<lparr>rows := [(1, signed_b)]\<rparr>,
            signed_posts\<lparr>rows := [(0, signed_a)]\<rparr>)"
    by code_simp
  have auth: "author signed_a = Str ''ann''" "author signed_b = NaN"
    by (simp_all add: signed_a_def signed_b_def post.extend_def post_a_def post_b_def mk_post_def)
  note kept = extra_columns_pass_validation_and_are_kept [OF ord cols, of example_parse]
  from kept have ok: "validate_schema canonical_order signed_posts = Inr ()"
    by blast
  from kept run have "columns (signed_posts\<lparr>rows := [(0, signed_a)]\<rparr>) = columns signed_posts"
    by blast
  then have "columns (signed_posts\<lparr>rows := [(0, signed_a)]\<rparr>) = (''author'', Object) # canonical_order"
    by (simp add: signed_posts_def)
  with ord extra ok run auth show ?thesis by blast
qed

subsection \<open>C9: the empty table\<close>

text \<open>
  C9: on a frame with the seven required columns of the declared dtypes and no rows,
  \<^verbatim>\<open>analyze_posts\<close> returns three tables without rows (each is the input frame itself).
\<close>

theorem empty_table_gives_three_empty_tables:
  assumes "iteration_order order"
      and "\<forall>(n, t) \<in> VALID_COLUMNS. map_of (columns posts_df) n = Some t"
      and "rows posts_df = []"
  shows "analyze_posts parse order posts_df = Inr (posts_df, posts_df, posts_df)"
proof -
  from validate_schema_accepts [OF assms(1,2)] have ok: "validate_schema order posts_df = Inr ()" .
  from assms(3) have "condition posts_df = []"
    by (simp add: condition_def)
  with assms(3) have top: "loc_mask posts_df (condition posts_df) = posts_df"
    and other: "loc_mask posts_df (map Not (condition posts_df)) = posts_df"
    by (simp_all add: loc_mask_def)
  from collect_daily_empty [OF assms(3), where parse = parse] ok top other show ?thesis
    by (simp add: analyze_posts_def)
qed

theorem empty_table_gives_three_empty_tables_witness:
  "iteration_order canonical_order
   \<and> rows empty_posts = []
   \<and> analyze_posts example_parse canonical_order empty_posts =
       Inr (empty_posts, empty_posts, empty_posts)"
proof -
  have ord: "iteration_order canonical_order"
    by code_simp
  have cols: "\<forall>(n, t) \<in> VALID_COLUMNS. map_of (columns empty_posts) n = Some t"
    by (simp add: VALID_COLUMNS_def empty_posts_def canonical_order_def C_ID_def C_TITLE_def
        C_PRIVACY_def C_LIKES_def C_VIEWS_def C_COMMENTS_def C_TIMESTAMP_def np_int_def
        np_object_def)
  have none: "rows empty_posts = []"
    by (simp add: empty_posts_def)
  from empty_table_gives_three_empty_tables [OF ord cols none, of example_parse] ord none
  show ?thesis by blast
qed

subsection \<open>C10: validation looks at the schema only\<close>

text \<open>
  C10: the result of validation does not depend on the rows of the frame, and a frame
  with the seven required columns of the declared dtypes is accepted whatever its rows
  hold, a negative like count for example.
\<close>

theorem validation_reads_no_row_values:
  "validate_schema order \<lparr>columns = cols, rows = rs\<rparr> =
     validate_schema order \<lparr>columns = cols, rows = rs'\<rparr>
   \<and> (iteration_order order \<and> (\<forall>(n, t) \<in> VALID_COLUMNS. map_of cols n = Some t) \<longrightarrow>
        validate_schema order \<lparr>columns = cols, rows = rs\<rparr> = Inr ())"
proof -
  have "validate_schema order \<lparr>columns = cols, rows = rs\<rparr> = Inr ()"
    if "iteration_order order" "\<forall>(n, t) \<in> VALID_COLUMNS. map_of cols n = Some t"
    using that by (simp add: validate_schema_accepts)
  then show ?thesis
    by (simp add: validate_schema_def)
qed

theorem validation_reads_no_row_values_witness:
  "iteration_order canonical_order
   \<and> likes post_negative_likes = - 5
   \<and> validate_schema canonical_order
       \<lparr>columns = canonical_order, rows = [(0, post_negative_likes)]\<rparr> = Inr ()"
proof -
  have ord: "iteration_order canonical_order"
    by code_simp
  have cols: "\<forall>(n, t) \<in> VALID_COLUMNS. map_of canonical_order n = Some t"
    by (simp add: VALID_COLUMNS_def canonical_order_def C_ID_def C_TITLE_def
        C_PRIVACY_def C_LIKES_def C_VIEWS_def C_COMMENTS_def C_TIMESTAMP_def np_int_def
        np_object_def)
  have neg: "likes post_negative_likes = - 5"
    by (simp add: post_negative_likes_def mk_post_def)
  from validation_reads_no_row_values
         [of canonical_order canonical_order "[(0, post_negative_likes)]" "[]"] ord cols neg
  show ?thesis by blast
qed

end
